theory Spec2Isabelle
  imports Main
begin

section \<open>Python values, exceptions and the built-ins the module calls\<close>

text \<open>
  The module under verification is \<^verbatim>\<open>airflow/utils/serve_logs.py\<close>: a Flask application
  whose \<^verbatim>\<open>before_request\<close> hook checks a signed token, one route that serves a log
  file, and the entry point that hands the application to Gunicorn.

  Exceptions are values: a Python call that may raise returns \<open>pyexn + 'a\<close>, with
  \<open>Inl\<close> for the exception. \<open>HTTPException c\<close> is what \<^verbatim>\<open>abort(c)\<close> raises; it carries
  the status code and nothing else.
\<close>

datatype pyexn =
    HTTPException nat
  | KeyError string
  | TypeError
  | ValueError
  | OverflowError
  | BadSignature string
  | BadHeader string
  | SignatureExpired
  | ConfigError string

text \<open>
  The values the JSON decoder of the serializer can hand back as payload and as header
  entries. \<open>PyFloat m e\<close> is the float of value \<open>m * 2 ^ e\<close>, which every finite
  double is for some \<open>m\<close> and \<open>e\<close>; \<open>PyInf\<close> is either infinity and \<open>PyNaN\<close> the
  not-a-number, both of which the decoder accepts. Of a float only its conversion by
  \<^verbatim>\<open>int\<close> is used, which is exact.

  A \<open>char\<close> stands for the code point of its number, so a \<open>string\<close> is a Python
  \<^verbatim>\<open>str\<close> of code points below 256.
\<close>

datatype pyval =
    PyNone
  | PyBool bool
  | PyInt int
  | PyFloat int int
  | PyInf
  | PyNaN
  | PyStr string
  | PyList "pyval list"
  | PyDict "(string \<times> pyval) list"

definition abort :: "nat \<Rightarrow> pyexn + 'a" where
  "abort code = Inl (HTTPException code)"

text \<open>
  \<^verbatim>\<open>int(s)\<close> on a string, base ten: surrounding whitespace is dropped, one sign may
  precede the digits, and single underscores may stand between digits. The whitespace
  that \<^verbatim>\<open>int\<close> drops is tab, line feed, vertical tab, form feed, carriage return and
  space (9 to 13 and 32) and, of the code points from 128 to 255, next line (133) and
  no-break space (160). The separators 28 to 31 are not dropped, and the only digits
  below 256 are \<^verbatim>\<open>0\<close> to \<^verbatim>\<open>9\<close>.
\<close>

definition is_space :: "char \<Rightarrow> bool" where
  "is_space c =
     (let n = (of_char c :: nat) in (9 \<le> n \<and> n \<le> 13) \<or> n = 32 \<or> n = 133 \<or> n = 160)"

definition strip :: "string \<Rightarrow> string" where
  "strip s = rev (dropWhile is_space (rev (dropWhile is_space s)))"

definition digit_val :: "char \<Rightarrow> nat option" where
  "digit_val c = (let n = (of_char c :: nat) in if 48 \<le> n \<and> n \<le> 57 then Some (n - 48) else None)"

fun parse_digits :: "nat \<Rightarrow> string \<Rightarrow> nat option" where
  "parse_digits acc [] = Some acc"
| "parse_digits acc [c] =
     (case digit_val c of None \<Rightarrow> None | Some v \<Rightarrow> Some (acc * 10 + v))"
| "parse_digits acc (c # d # ds) =
     (if c = CHR ''_'' then
        (case digit_val d of None \<Rightarrow> None | Some v \<Rightarrow> parse_digits (acc * 10 + v) ds)
      else
        (case digit_val c of None \<Rightarrow> None | Some v \<Rightarrow> parse_digits (acc * 10 + v) (d # ds)))"

definition parse_unsigned :: "string \<Rightarrow> nat option" where
  "parse_unsigned s =
     (case s of
        [] \<Rightarrow> None
      | c # cs \<Rightarrow> (case digit_val c of None \<Rightarrow> None | Some v \<Rightarrow> parse_digits v cs))"

definition int_of_str :: "string \<Rightarrow> int option" where
  "int_of_str s =
     (case strip s of
        [] \<Rightarrow> None
      | c # cs \<Rightarrow>
          if c = CHR ''-'' then map_option (\<lambda>n. - int n) (parse_unsigned cs)
          else if c = CHR ''+'' then map_option int (parse_unsigned cs)
          else map_option int (parse_unsigned (c # cs)))"

text \<open>\<^verbatim>\<open>int(x)\<close> on a finite float: the fraction is cut off, towards zero.\<close>

definition float_trunc :: "int \<Rightarrow> int \<Rightarrow> int" where
  "float_trunc m e =
     (if 0 \<le> e then m * 2 ^ nat e
      else if 0 \<le> m then m div 2 ^ nat (- e)
      else - ((- m) div 2 ^ nat (- e)))"

text \<open>The built-in \<^verbatim>\<open>int(v)\<close>: \<^verbatim>\<open>ValueError\<close> on a string that is no numeral and
  on not-a-number, \<^verbatim>\<open>OverflowError\<close> on an infinity, \<^verbatim>\<open>TypeError\<close> on
  \<^verbatim>\<open>None\<close>, a list or a dict.\<close>

fun py_int :: "pyval \<Rightarrow> pyexn + int" where
  "py_int (PyInt n) = Inr n"
| "py_int (PyBool b) = Inr (if b then 1 else 0)"
| "py_int (PyFloat m e) = Inr (float_trunc m e)"
| "py_int PyInf = Inl OverflowError"
| "py_int PyNaN = Inl ValueError"
| "py_int (PyStr s) = (case int_of_str s of None \<Rightarrow> Inl ValueError | Some n \<Rightarrow> Inr n)"
| "py_int PyNone = Inl TypeError"
| "py_int (PyList xs) = Inl TypeError"
| "py_int (PyDict kvs) = Inl TypeError"

text \<open>\<^verbatim>\<open>str(n)\<close> on an integer, as the f-string of the entry point formats the port.\<close>

definition digit_char :: "nat \<Rightarrow> char" where
  "digit_char d = ''0123456789'' ! d"

fun str_nat :: "nat \<Rightarrow> string" where
  "str_nat n = (if n < 10 then [digit_char n] else str_nat (n div 10) @ [digit_char (n mod 10)])"

definition py_str_int :: "int \<Rightarrow> string" where
  "py_str_int i = (if i < 0 then CHR ''-'' # str_nat (nat (- i)) else str_nat (nat i))"

text \<open>\<^verbatim>\<open>d[k]\<close> on a dict: \<^verbatim>\<open>KeyError\<close> when the key is missing.\<close>

definition getitem :: "(string \<rightharpoonup> 'v) \<Rightarrow> string \<Rightarrow> pyexn + 'v" where
  "getitem d k = (case d k of None \<Rightarrow> Inl (KeyError k) | Some v \<Rightarrow> Inr v)"

section \<open>The request and the application\<close>

text \<open>
  Flask's request, as far as the hook and the dispatch read it: the verb
  (\<^verbatim>\<open>request.method\<close>), the path, the headers, and the outcome of routing.
  When the URL and verb matched no rule, \<^verbatim>\<open>routing_exception\<close> holds what routing
  raised and \<^verbatim>\<open>view_args\<close> is \<^verbatim>\<open>None\<close>; otherwise \<^verbatim>\<open>view_args\<close> is the dict
  of the arguments the rule extracted from the URL.
\<close>

record request =
  verb :: string
  path :: string
  headers :: "string \<rightharpoonup> string"
  routing_exception :: "pyexn option"
  view_args :: "(string \<rightharpoonup> string) option"

text \<open>
  \<^verbatim>\<open>signer.loads(auth, return_header=True)\<close>. The serializer reads the clock, so its
  \<^verbatim>\<open>loads\<close> is a function of the clock's reading and the token string, to an exception
  or to the pair of payload and header. Within one request the serializer and the hook
  are taken to read the same second.
\<close>

type_synonym unsigner = "string \<Rightarrow> pyexn + (pyval \<times> (string \<rightharpoonup> pyval))"

type_synonym serializer = "int \<Rightarrow> unsigner"

text \<open>
  The library's \<^verbatim>\<open>TimedJSONWebSignatureSerializer.loads\<close>. It first calls the
  \<^verbatim>\<open>loads\<close> of its base class, which checks the format and the signature of the
  token and decodes payload and header (the argument \<open>unsign\<close>, a parameter: that part
  does not read the clock). Then it requires an \<^verbatim>\<open>exp\<close> in the header, converts it
  with \<^verbatim>\<open>int\<close>, catching \<^verbatim>\<open>ValueError\<close> only, refuses a negative one and one
  that is earlier than the clock's reading, and returns the payload and the header with
  the converted \<^verbatim>\<open>exp\<close>.
\<close>

fun int_date_error :: "pyexn \<Rightarrow> pyexn" where
  "int_date_error ValueError = BadHeader ''Expiry date is not an IntDate''"
| "int_date_error e = e"

definition timed_loads :: "unsigner \<Rightarrow> serializer" where
  "timed_loads unsign now s =
     (case unsign s of
        Inl e \<Rightarrow> Inl e
      | Inr (payload, header) \<Rightarrow>
          (case header ''exp'' of
             None \<Rightarrow> Inl (BadSignature ''Missing expiry date'')
           | Some v \<Rightarrow>
               (case py_int v of
                  Inl e \<Rightarrow> Inl (int_date_error e)
                | Inr exp \<Rightarrow>
                    if exp < 0 then Inl (BadHeader ''Expiry date is not an IntDate'')
                    else if exp < now then Inl SignatureExpired
                    else Inr (payload, header(''exp'' \<mapsto> PyInt exp)))))"

text \<open>The closure of \<^verbatim>\<open>create_app\<close>: the three names the hook and the view read.\<close>

record app =
  max_request_age :: int
  log_directory :: string
  signer :: serializer

text \<open>\<^verbatim>\<open>request.view_args['filename']\<close>: subscripting \<^verbatim>\<open>None\<close> is a
  \<^verbatim>\<open>TypeError\<close>, a missing key a \<^verbatim>\<open>KeyError\<close>.\<close>

definition view_arg :: "'a request_scheme \<Rightarrow> string \<Rightarrow> pyexn + string" where
  "view_arg r k = (case view_args r of None \<Rightarrow> Inl TypeError | Some va \<Rightarrow> getitem va k)"

text \<open>The body of the \<^verbatim>\<open>try\<close> block of \<^verbatim>\<open>validate_pre_signed_url\<close> (lines 47 to 54):
  the first exception raised ends it.\<close>

definition decode_claim :: "unsigner \<Rightarrow> 'a request_scheme \<Rightarrow> pyexn + (pyval \<times> int \<times> int)" where
  "decode_claim loads r =
     (case getitem (headers r) ''Authorization'' of
        Inl e \<Rightarrow> Inl e
      | Inr auth \<Rightarrow>
          (case loads auth of
             Inl e \<Rightarrow> Inl e
           | Inr (filename, hdrs) \<Rightarrow>
               (case getitem hdrs ''iat'' of
                  Inl e \<Rightarrow> Inl e
                | Inr iat \<Rightarrow>
                    (case py_int iat of
                       Inl e \<Rightarrow> Inl e
                     | Inr issued_at \<Rightarrow>
                         (case getitem hdrs ''exp'' of
                            Inl e \<Rightarrow> Inl e
                          | Inr exp \<Rightarrow>
                              (case py_int exp of
                                 Inl e \<Rightarrow> Inl e
                               | Inr expires_at \<Rightarrow> Inr (filename, issued_at, expires_at)))))))"

text \<open>
  The hook. \<open>now\<close> is \<^verbatim>\<open>int(time.time())\<close>, which is also the reading of the clock
  that the serializer gets. \<open>Inr ()\<close> is the hook returning
  \<^verbatim>\<open>None\<close>, after which Flask goes on to the view.
\<close>

definition validate_pre_signed_url :: "app \<Rightarrow> 'a request_scheme \<Rightarrow> int \<Rightarrow> pyexn + unit" where
  "validate_pre_signed_url a r now =
     (case decode_claim (signer a now) r of
        Inl e \<Rightarrow> abort 403
      | Inr (filename, issued_at, expires_at) \<Rightarrow>
          (case view_arg r ''filename'' of
             Inl e \<Rightarrow> Inl e
           | Inr requested \<Rightarrow>
               if filename \<noteq> PyStr requested then abort 403
               else if \<bar>now - issued_at\<bar> > max_request_age a then abort 403
               else if \<bar>now - expires_at\<bar> > max_request_age a then abort 403
               else if issued_at > expires_at \<or> expires_at - issued_at > max_request_age a
                 then abort 403
               else Inr ()))"

section \<open>Dispatch: the hook, then the view\<close>

text \<open>
  A response is what the file responder built, or the framework's own answer to an
  \<^verbatim>\<open>OPTIONS\<close> request, or the framework's generic page for a status code, which depends
  on the code alone.
\<close>

datatype response =
    FileResponse nat string string
  | DefaultOptions
  | ErrorPage nat

fun status :: "response \<Rightarrow> nat" where
  "status (FileResponse c mimetype bytes) = c"
| "status DefaultOptions = 200"
| "status (ErrorPage c) = c"

text \<open>
  \<^verbatim>\<open>send_from_directory(directory, filename, mimetype=..., as_attachment=...)\<close> is
  Flask's; it reads the file system. It is a parameter, and every call of it is recorded
  as an event, so that the order of the check and the file access can be stated.
\<close>

type_synonym responder = "string \<Rightarrow> string \<Rightarrow> string \<Rightarrow> bool \<Rightarrow> pyexn + response"

datatype event = SendFromDirectory string string

definition serve_logs_view :: "app \<Rightarrow> responder \<Rightarrow> string \<Rightarrow> (pyexn + response) \<times> event list" where
  "serve_logs_view a send_from_directory filename =
     (send_from_directory (log_directory a) filename ''application/json'' False,
      [SendFromDirectory (log_directory a) filename])"

text \<open>
  Flask's request cycle for this application, which registers one
  \<^verbatim>\<open>before_request\<close> function and one rule, \<^verbatim>\<open>/log/<path:filename>\<close>: the hook runs
  first; an exception it raises ends the request; when it returns \<^verbatim>\<open>None\<close> the
  request is dispatched. Dispatch raises the routing exception when there is one,
  answers an \<^verbatim>\<open>OPTIONS\<close> request itself without calling the view (the rule gets
  Flask's automatic \<^verbatim>\<open>OPTIONS\<close> handling), and otherwise calls the view with the
  view arguments as keyword arguments.
\<close>

definition dispatch_request ::
    "app \<Rightarrow> responder \<Rightarrow> 'a request_scheme \<Rightarrow> (pyexn + response) \<times> event list" where
  "dispatch_request a send_from_directory r =
     (case routing_exception r of
        Some e \<Rightarrow> (Inl e, [])
      | None \<Rightarrow>
          if verb r = ''OPTIONS'' then (Inr DefaultOptions, [])
          else
            (case view_args r of
               None \<Rightarrow> (Inl TypeError, [])
             | Some va \<Rightarrow>
                 (case va ''filename'' of
                    None \<Rightarrow> (Inl TypeError, [])
                  | Some filename \<Rightarrow> serve_logs_view a send_from_directory filename)))"

definition full_dispatch_request ::
    "app \<Rightarrow> responder \<Rightarrow> 'a request_scheme \<Rightarrow> int \<Rightarrow> (pyexn + response) \<times> event list" where
  "full_dispatch_request a send_from_directory r now =
     (case validate_pre_signed_url a r now of
        Inl e \<Rightarrow> (Inl e, [])
      | Inr u \<Rightarrow> dispatch_request a send_from_directory r)"

text \<open>An \<^verbatim>\<open>HTTPException\<close> becomes the page of its code, any other exception a 500.\<close>

fun finalize :: "pyexn + response \<Rightarrow> response" where
  "finalize (Inr resp) = resp"
| "finalize (Inl (HTTPException c)) = ErrorPage c"
| "finalize (Inl e) = ErrorPage 500"

definition wsgi_app :: "app \<Rightarrow> responder \<Rightarrow> 'a request_scheme \<Rightarrow> int \<Rightarrow> response \<times> event list" where
  "wsgi_app a send_from_directory r now =
     (case full_dispatch_request a send_from_directory r now of
        (res, evs) \<Rightarrow> (finalize res, evs))"

section \<open>Start-up: \<^verbatim>\<open>create_app\<close> and \<^verbatim>\<open>serve_logs\<close>\<close>

text \<open>
  \<^verbatim>\<open>airflow.configuration.conf\<close> is not part of this module; it is a parameter, the
  record of the two methods called: \<^verbatim>\<open>getint(section, key, fallback=...)\<close> and
  \<^verbatim>\<open>get(section, key)\<close>. So are \<^verbatim>\<open>os.path.expanduser\<close> and the base class of the
  serializer, which for a secret key, an algorithm name and a salt gives the function
  that checks and decodes a token. The serializer of the application is the timed one
  over it; its \<^verbatim>\<open>expires_in\<close> is used when signing only.
\<close>

record conf =
  getint :: "string \<Rightarrow> string \<Rightarrow> int option \<Rightarrow> pyexn + int"
  get :: "string \<Rightarrow> string \<Rightarrow> pyexn + string"

record libs =
  expanduser :: "string \<Rightarrow> string"
  JSONWebSignatureSerializer :: "string \<Rightarrow> string \<Rightarrow> string \<Rightarrow> unsigner"

definition TimedJSONWebSignatureSerializer ::
    "libs \<Rightarrow> string \<Rightarrow> string \<Rightarrow> int \<Rightarrow> string \<Rightarrow> serializer" where
  "TimedJSONWebSignatureSerializer l secret_key algorithm_name expires_in salt =
     timed_loads (JSONWebSignatureSerializer l secret_key algorithm_name salt)"

definition create_app :: "conf \<Rightarrow> libs \<Rightarrow> pyexn + app" where
  "create_app c l =
     (case getint c ''webserver'' ''log_request_clock_grace'' (Some 30) of
        Inl e \<Rightarrow> Inl e
      | Inr age \<Rightarrow>
          (case get c ''logging'' ''BASE_LOG_FOLDER'' of
             Inl e \<Rightarrow> Inl e
           | Inr folder \<Rightarrow>
               (case get c ''webserver'' ''secret_key'' of
                  Inl e \<Rightarrow> Inl e
                | Inr key \<Rightarrow>
                    Inr \<lparr>max_request_age = age,
                         log_directory = expanduser l folder,
                         signer = TimedJSONWebSignatureSerializer l key ''HS512'' age
                                    ''task-instance-logs''\<rparr>)))"

text \<open>
  \<^verbatim>\<open>StandaloneGunicornApplication\<close>: the options, the application, and Gunicorn's
  settings object \<^verbatim>\<open>cfg\<close>, here the map of the settings that were set.
  The base class's constructor calls \<^verbatim>\<open>load_config\<close>, which sets every option under
  its lower-cased key, in the order of the dict.
\<close>

record gunicorn_application =
  options :: "(string \<times> pyval) list"
  application :: app
  cfg :: "string \<rightharpoonup> pyval"

definition lower_char :: "char \<Rightarrow> char" where
  "lower_char c = (let n = (of_char c :: nat) in if 65 \<le> n \<and> n \<le> 90 then char_of (n + 32) else c)"

definition lower :: "string \<Rightarrow> string" where
  "lower s = map lower_char s"

fun cfg_set_all :: "(string \<rightharpoonup> pyval) \<Rightarrow> (string \<times> pyval) list \<Rightarrow> (string \<rightharpoonup> pyval)" where
  "cfg_set_all m [] = m"
| "cfg_set_all m ((key, v) # kvs) = cfg_set_all (m(lower key \<mapsto> v)) kvs"

definition load_config :: "gunicorn_application \<Rightarrow> gunicorn_application" where
  "load_config g = g\<lparr>cfg := cfg_set_all (cfg g) (options g)\<rparr>"

definition StandaloneGunicornApplication :: "app \<Rightarrow> (string \<times> pyval) list \<Rightarrow> gunicorn_application" where
  "StandaloneGunicornApplication a opts =
     load_config \<lparr>options = opts, application = a, cfg = Map.empty\<rparr>"

text \<open>
  \<^verbatim>\<open>serve_logs\<close>, up to the call of \<^verbatim>\<open>run()\<close>: the result is the Gunicorn
  application that is run, or the exception that start-up raised.
\<close>

definition serve_logs :: "conf \<Rightarrow> libs \<Rightarrow> pyexn + gunicorn_application" where
  "serve_logs c l =
     (case create_app c l of
        Inl e \<Rightarrow> Inl e
      | Inr a \<Rightarrow>
          (case getint c ''celery'' ''WORKER_LOG_SERVER_PORT'' None of
             Inl e \<Rightarrow> Inl e
           | Inr worker_log_server_port \<Rightarrow>
               Inr (StandaloneGunicornApplication a
                      [(''bind'', PyStr (''0.0.0.0:'' @ py_str_int worker_log_server_port)),
                       (''workers'', PyInt 2)])))"

section \<open>Test doubles for the parameters\<close>

text \<open>
  Concrete stand-ins for the parameters, used to run the model on examples: a base
  serializer that accepts exactly one token string and decodes it to a given payload and
  header, with the timed serializer over it, a responder
  over a directory holding the given file names, and a configuration read from a table.
\<close>

definition claim_header :: "int \<Rightarrow> int \<Rightarrow> (string \<rightharpoonup> pyval)" where
  "claim_header issued_at expires_at =
     [''alg'' \<mapsto> PyStr ''HS512'', ''iat'' \<mapsto> PyInt issued_at, ''exp'' \<mapsto> PyInt expires_at]"

definition one_token_unsign :: "string \<Rightarrow> pyval \<Rightarrow> (string \<rightharpoonup> pyval) \<Rightarrow> unsigner" where
  "one_token_unsign token payload hdrs =
     (\<lambda>s. if s = token then Inr (payload, hdrs)
          else Inl (BadSignature ''Signature does not match''))"

definition test_app :: "int \<Rightarrow> unsigner \<Rightarrow> app" where
  "test_app age unsign =
     \<lparr>max_request_age = age, log_directory = ''/logs'', signer = timed_loads unsign\<rparr>"

definition log_request :: "string option \<Rightarrow> string \<Rightarrow> request" where
  "log_request auth filename =
     \<lparr>verb = ''GET'', path = ''/log/'' @ filename,
      headers = (case auth of None \<Rightarrow> Map.empty | Some t \<Rightarrow> [''Authorization'' \<mapsto> t]),
      routing_exception = None,
      view_args = Some [''filename'' \<mapsto> filename]\<rparr>"

definition options_request :: "string option \<Rightarrow> string \<Rightarrow> request" where
  "options_request auth filename = (log_request auth filename)\<lparr>verb := ''OPTIONS''\<rparr>"

definition unrouted_request :: "string option \<Rightarrow> string \<Rightarrow> request" where
  "unrouted_request auth p =
     \<lparr>verb = ''GET'', path = p,
      headers = (case auth of None \<Rightarrow> Map.empty | Some t \<Rightarrow> [''Authorization'' \<mapsto> t]),
      routing_exception = Some (HTTPException 404),
      view_args = None\<rparr>"

definition files_responder :: "string list \<Rightarrow> responder" where
  "files_responder names =
     (\<lambda>directory filename mimetype as_attachment.
        if filename \<in> set names then Inr (FileResponse 200 mimetype ''{}'')
        else Inl (HTTPException 404))"

definition table_conf :: "((string \<times> string) \<rightharpoonup> string) \<Rightarrow> conf" where
  "table_conf t =
     \<lparr>getint = (\<lambda>section key fallback.
        case t (section, key) of
          None \<Rightarrow> (case fallback of None \<Rightarrow> Inl (ConfigError key) | Some d \<Rightarrow> Inr d)
        | Some s \<Rightarrow> (case int_of_str s of None \<Rightarrow> Inl (ConfigError key) | Some n \<Rightarrow> Inr n)),
      get = (\<lambda>section key.
        case t (section, key) of None \<Rightarrow> Inl (ConfigError key) | Some s \<Rightarrow> Inr s)\<rparr>"

definition test_libs :: libs where
  "test_libs =
     \<lparr>expanduser = (\<lambda>p. p),
      JSONWebSignatureSerializer =
        (\<lambda>key alg salt. one_token_unsign key PyNone Map.empty)\<rparr>"

definition test_table :: "(string \<times> string) \<rightharpoonup> string" where
  "test_table =
     [(''logging'', ''BASE_LOG_FOLDER'') \<mapsto> ''/logs'',
      (''webserver'', ''secret_key'') \<mapsto> ''s3cret'',
      (''celery'', ''WORKER_LOG_SERVER_PORT'') \<mapsto> ''8793'']"

section \<open>The hook, case by case\<close>

text \<open>The three ways the hook can go: the \<^verbatim>\<open>try\<close> block raised, the claim was decoded
  but the request has no \<^verbatim>\<open>filename\<close> view argument, or both are there and the four
  comparisons decide.\<close>

lemma validate_undecoded:
  "decode_claim (signer a now) r = Inl e \<Longrightarrow>
   validate_pre_signed_url a r now = Inl (HTTPException 403)"
  by (simp add: validate_pre_signed_url_def abort_def)

lemma validate_unrouted:
  "decode_claim (signer a now) r = Inr c \<Longrightarrow> view_arg r ''filename'' = Inl e \<Longrightarrow>
   validate_pre_signed_url a r now = Inl e"
  by (cases c) (simp add: validate_pre_signed_url_def)

lemma validate_decoded:
  "decode_claim (signer a now) r = Inr (p, i, e) \<Longrightarrow> view_arg r ''filename'' = Inr f \<Longrightarrow>
   validate_pre_signed_url a r now =
     (if p = PyStr f \<and> \<bar>now - i\<bar> \<le> max_request_age a \<and> \<bar>now - e\<bar> \<le> max_request_age a
         \<and> i \<le> e \<and> e - i \<le> max_request_age a
      then Inr () else Inl (HTTPException 403))"
  by (auto simp add: validate_pre_signed_url_def abort_def)

lemma validate_routed_cases:
  assumes "view_arg r ''filename'' = Inr f"
  shows "validate_pre_signed_url a r now = Inr ()
     \<or> validate_pre_signed_url a r now = Inl (HTTPException 403)"
proof (cases "decode_claim (signer a now) r")
  case (Inl e)
  then show ?thesis by (simp add: validate_undecoded)
next
  case (Inr c)
  obtain p i e where "c = (p, i, e)" by (cases c) auto
  with Inr assms show ?thesis by (simp add: validate_decoded)
qed

text \<open>The \<^verbatim>\<open>try\<close> block, for any \<^verbatim>\<open>loads\<close>.\<close>

lemma decode_claim_loaded:
  "headers r ''Authorization'' = Some tok \<Longrightarrow> loads tok = Inr (p, h) \<Longrightarrow>
   h ''iat'' = Some vi \<Longrightarrow> py_int vi = Inr i \<Longrightarrow>
   h ''exp'' = Some ve \<Longrightarrow> py_int ve = Inr e \<Longrightarrow>
   decode_claim loads r = Inr (p, i, e)"
  by (simp add: decode_claim_def getitem_def)

lemma decode_claim_refused:
  "headers r ''Authorization'' = Some tok \<Longrightarrow> loads tok = Inl x \<Longrightarrow>
   decode_claim loads r = Inl x"
  by (simp add: decode_claim_def getitem_def)

lemma decode_claim_fails:
  assumes "headers r ''Authorization'' = None
     \<or> (\<exists>tok e. headers r ''Authorization'' = Some tok \<and> loads tok = Inl e)
     \<or> (\<exists>tok p h. headers r ''Authorization'' = Some tok \<and> loads tok = Inr (p, h)
          \<and> (h ''iat'' = None \<or> (\<exists>v e. h ''iat'' = Some v \<and> py_int v = Inl e)
             \<or> h ''exp'' = None \<or> (\<exists>v e. h ''exp'' = Some v \<and> py_int v = Inl e)))"
  shows "\<exists>e. decode_claim loads r = Inl e"
  using assms
  by (auto simp add: decode_claim_def getitem_def split: sum.splits option.splits)

text \<open>The timed serializer: a token is loaded up to and including the second of its
  \<^verbatim>\<open>exp\<close>, and refused after it.\<close>

lemma timed_loads_fresh:
  "unsign tok = Inr (p, h) \<Longrightarrow> h ''exp'' = Some v \<Longrightarrow> py_int v = Inr e \<Longrightarrow>
   0 \<le> e \<Longrightarrow> now \<le> e \<Longrightarrow>
   timed_loads unsign now tok = Inr (p, h(''exp'' \<mapsto> PyInt e))"
  by (simp add: timed_loads_def)

lemma timed_loads_late:
  "unsign tok = Inr (p, h) \<Longrightarrow> h ''exp'' = Some v \<Longrightarrow> py_int v = Inr e \<Longrightarrow>
   e < now \<Longrightarrow> \<exists>x. timed_loads unsign now tok = Inl x"
  by (simp add: timed_loads_def)

lemma timed_loads_negative:
  "unsign tok = Inr (p, h) \<Longrightarrow> h ''exp'' = Some v \<Longrightarrow> py_int v = Inr e \<Longrightarrow>
   e < 0 \<Longrightarrow> \<exists>x. timed_loads unsign now tok = Inl x"
  by (simp add: timed_loads_def)

lemma decode_claim_timed:
  assumes "headers r ''Authorization'' = Some tok" and "unsign tok = Inr (p, h)"
    and "h ''iat'' = Some vi" and "py_int vi = Inr i"
    and "h ''exp'' = Some ve" and "py_int ve = Inr e"
    and "0 \<le> e" and "now \<le> e"
  shows "decode_claim (timed_loads unsign now) r = Inr (p, i, e)"
proof -
  have l: "timed_loads unsign now tok = Inr (p, h(''exp'' \<mapsto> PyInt e))"
    using assms(2,5,6,7,8) by (rule timed_loads_fresh)
  show ?thesis
    by (rule decode_claim_loaded [where tok = tok and h = "h(''exp'' \<mapsto> PyInt e)"
          and vi = vi and ve = "PyInt e"])
       (simp_all add: assms(1,3,4) l)
qed

lemma decode_claim_timed_late:
  assumes "headers r ''Authorization'' = Some tok" and "unsign tok = Inr (p, h)"
    and "h ''exp'' = Some ve" and "py_int ve = Inr e" and "e < now \<or> e < 0"
  shows "\<exists>x. decode_claim (timed_loads unsign now) r = Inl x"
proof -
  obtain x where "timed_loads unsign now tok = Inl x"
    using assms(2-5) timed_loads_late [of unsign tok p h ve e now]
      timed_loads_negative [of unsign tok p h ve e now] by blast
  then show ?thesis using assms(1) decode_claim_refused by blast
qed

text \<open>The test doubles behave as intended.\<close>

lemma headers_log_request: "headers (log_request (Some tok) f) ''Authorization'' = Some tok"
  by (simp add: log_request_def)

lemma view_arg_log_request: "view_arg (log_request auth f) ''filename'' = Inr f"
  by (simp add: log_request_def view_arg_def getitem_def)

lemma routed_log_request:
  "routing_exception (log_request auth f) = None" "verb (log_request auth f) = ''GET''"
  by (simp_all add: log_request_def)

lemma options_request_sel:
  "headers (options_request (Some tok) f) ''Authorization'' = Some tok"
  "view_arg (options_request auth f) ''filename'' = Inr f"
  "routing_exception (options_request auth f) = None"
  "verb (options_request auth f) = ''OPTIONS''"
  by (simp_all add: options_request_def log_request_def view_arg_def getitem_def)

lemma test_app_sel:
  "max_request_age (test_app m u) = m" "log_directory (test_app m u) = ''/logs''"
  "signer (test_app m u) = timed_loads u"
  by (simp_all add: test_app_def)

lemma one_token_unsign_same: "one_token_unsign tok p h tok = Inr (p, h)"
  by (simp add: one_token_unsign_def)

lemma claim_header_sel:
  "claim_header i e ''iat'' = Some (PyInt i)" "claim_header i e ''exp'' = Some (PyInt e)"
  by (simp_all add: claim_header_def)

lemma decode_claim_test:
  assumes "0 \<le> e" and "now \<le> e"
  shows "decode_claim (signer (test_app m (one_token_unsign tok p (claim_header i e))) now)
     (log_request (Some tok) f) = Inr (p, i, e)"
  unfolding test_app_sel
  by (rule decode_claim_timed [where tok = tok and h = "claim_header i e"
        and vi = "PyInt i" and ve = "PyInt e"])
     (simp_all add: headers_log_request one_token_unsign_same claim_header_sel assms)

text \<open>Dispatch after the hook.\<close>

lemma dispatch_allowed:
  "validate_pre_signed_url a r now = Inr () \<Longrightarrow> view_arg r ''filename'' = Inr f \<Longrightarrow>
   routing_exception r = None \<Longrightarrow> verb r \<noteq> ''OPTIONS'' \<Longrightarrow>
   full_dispatch_request a sfd r now = serve_logs_view a sfd f"
  by (auto simp add: full_dispatch_request_def dispatch_request_def view_arg_def getitem_def
      split: option.splits)

lemma dispatch_raised:
  "validate_pre_signed_url a r now = Inl e \<Longrightarrow> full_dispatch_request a sfd r now = (Inl e, [])"
  by (simp add: full_dispatch_request_def)

lemma wsgi_app_raised:
  "validate_pre_signed_url a r now = Inl (HTTPException c) \<Longrightarrow>
   wsgi_app a sfd r now = (ErrorPage c, [])"
  by (simp add: wsgi_app_def dispatch_raised)

lemma wsgi_app_response_raised:
  "validate_pre_signed_url a r now = Inl e \<Longrightarrow> \<exists>c. fst (wsgi_app a sfd r now) = ErrorPage c"
  by (cases e) (simp_all add: wsgi_app_def dispatch_raised)

lemma dispatch_request_events:
  "SendFromDirectory d f \<in> set (snd (dispatch_request a sfd r)) \<Longrightarrow>
   d = log_directory a \<and> view_arg r ''filename'' = Inr f"
  by (auto simp add: dispatch_request_def serve_logs_view_def view_arg_def getitem_def
      split: option.splits if_splits)

lemma wsgi_app_events:
  "snd (wsgi_app a sfd r now) =
     (case validate_pre_signed_url a r now of
        Inl e \<Rightarrow> []
      | Inr u \<Rightarrow> snd (dispatch_request a sfd r))"
  by (auto simp add: wsgi_app_def full_dispatch_request_def split: sum.splits prod.splits)

text \<open>Conversions used in the examples.\<close>

lemma py_int_soon: "py_int (PyStr ''soon'') = Inl ValueError"
  by code_simp

lemma int_of_str_1000: "int_of_str ''1000'' = Some 1000"
  by code_simp

lemma py_int_1000_str: "py_int (PyStr ''1000'') = Inr 1000"
  by (simp add: int_of_str_1000)

lemma float_trunc_1000: "float_trunc 2001 (- 1) = 1000"
  by (simp add: float_trunc_def)

lemma py_int_1000_float: "py_int (PyFloat 2001 (- 1)) = Inr 1000"
  by (simp add: float_trunc_1000)

text \<open>Start-up: the settings that reach Gunicorn, the test configuration, and the
  serializer that \<^verbatim>\<open>create_app\<close> builds.\<close>

lemma lower_bind: "lower ''bind'' = ''bind''"
  by code_simp

lemma lower_workers: "lower ''workers'' = ''workers''"
  by code_simp

lemma cfg_two_options:
  "cfg (StandaloneGunicornApplication a [(''bind'', v), (''workers'', w)])
     = [''bind'' \<mapsto> v, ''workers'' \<mapsto> w]"
  by (simp add: StandaloneGunicornApplication_def load_config_def lower_bind lower_workers)

lemma int_of_str_8793: "int_of_str ''8793'' = Some 8793"
  by code_simp

lemma py_str_int_8793: "py_str_int 8793 = ''8793''"
  by (simp add: py_str_int_def digit_char_def)

lemma test_table_lookups:
  "test_table (''webserver'', ''log_request_clock_grace'') = None"
  "test_table (''logging'', ''BASE_LOG_FOLDER'') = Some ''/logs''"
  "test_table (''webserver'', ''secret_key'') = Some ''s3cret''"
  "test_table (''celery'', ''WORKER_LOG_SERVER_PORT'') = Some ''8793''"
  by (simp_all add: test_table_def)

lemma create_app_signer:
  "create_app c l = Inr a \<Longrightarrow> \<exists>unsign. signer a = timed_loads unsign"
  by (auto simp add: create_app_def TimedJSONWebSignatureSerializer_def split: sum.splits)

section \<open>Resource binding\<close>

text \<open>
  Claim C3. When the token decodes (its signature verified and its \<^verbatim>\<open>iat\<close> and
  \<^verbatim>\<open>exp\<close> are integers) and the payload is not the string that is the \<^verbatim>\<open>filename\<close>
  view argument of the request, the hook aborts with 403, whatever the timestamps and
  the current time are, so also when every freshness check would pass.
\<close>

theorem resource_mismatch_denied:
  assumes "decode_claim (signer a now) r = Inr (p, issued_at, expires_at)"
    and "view_arg r ''filename'' = Inr requested"
    and "p \<noteq> PyStr requested"
  shows "validate_pre_signed_url a r now = Inl (HTTPException 403)"
  using assms by (simp add: validate_decoded)

theorem resource_mismatch_denied_witness:
  "decode_claim (signer (test_app 30 (one_token_unsign ''tok'' (PyStr ''task1.log'')
       (claim_header 1000 1020))) 1015) (log_request (Some ''tok'') ''task2.log'')
     = Inr (PyStr ''task1.log'', 1000, 1020)
   \<and> view_arg (log_request (Some ''tok'') ''task2.log'') ''filename'' = Inr ''task2.log''
   \<and> PyStr ''task1.log'' \<noteq> PyStr ''task2.log''
   \<and> validate_pre_signed_url
        (test_app 30 (one_token_unsign ''tok'' (PyStr ''task1.log'') (claim_header 1000 1020)))
        (log_request (Some ''tok'') ''task2.log'') 1015 = Inl (HTTPException 403)"
proof -
  let ?a = "test_app 30 (one_token_unsign ''tok'' (PyStr ''task1.log'') (claim_header 1000 1020))"
  have dc: "decode_claim (signer ?a 1015) (log_request (Some ''tok'') ''task2.log'')
      = Inr (PyStr ''task1.log'', 1000, 1020)"
    by (rule decode_claim_test) simp_all
  have va: "view_arg (log_request (Some ''tok'') ''task2.log'') ''filename'' = Inr ''task2.log''"
    by (rule view_arg_log_request)
  have ne: "PyStr ''task1.log'' \<noteq> PyStr ''task2.log''" by simp
  show ?thesis
    using resource_mismatch_denied [OF dc va ne] dc va ne by blast
qed

section \<open>The window in which a valid token is accepted\<close>

text \<open>
  Claim C1, as amended. Let the token be correctly signed and carry
  \<open>(resource, issued_at, expires_at)\<close> with
  \<open>issued_at \<le> expires_at \<le> issued_at + max_request_age\<close> and \<open>0 \<le> expires_at\<close>, and let
  the request be a \<^verbatim>\<open>GET\<close> or \<^verbatim>\<open>HEAD\<close> on the log route whose \<^verbatim>\<open>filename\<close> is
  \<open>resource\<close>. At every \<open>now\<close> with \<open>expires_at - max_request_age \<le> now \<le> expires_at\<close>
  the hook returns without aborting, and the request is dispatched to the view, whose
  single action is the call of the file responder on the log directory and \<open>resource\<close>;
  the responder's answer is the answer to the request.
\<close>

theorem allow_within_window:
  assumes "signer a = timed_loads unsign"
    and "headers r ''Authorization'' = Some tok"
    and "unsign tok = Inr (PyStr resource, h)"
    and "h ''iat'' = Some (PyInt issued_at)" and "h ''exp'' = Some (PyInt expires_at)"
    and "routing_exception r = None" and "verb r = ''GET'' \<or> verb r = ''HEAD''"
    and "view_arg r ''filename'' = Inr resource"
    and "issued_at \<le> expires_at" and "expires_at \<le> issued_at + max_request_age a"
    and "0 \<le> expires_at"
    and "expires_at - max_request_age a \<le> now" and "now \<le> expires_at"
  shows "validate_pre_signed_url a r now = Inr ()
     \<and> full_dispatch_request a send_from_directory r now
         = (send_from_directory (log_directory a) resource ''application/json'' False,
            [SendFromDirectory (log_directory a) resource])"
proof -
  have dc: "decode_claim (signer a now) r = Inr (PyStr resource, issued_at, expires_at)"
    unfolding assms(1)
    by (rule decode_claim_timed [where tok = tok and h = h and vi = "PyInt issued_at"
          and ve = "PyInt expires_at"])
       (simp_all add: assms(2-5) assms(11) assms(13))
  have "\<bar>now - issued_at\<bar> \<le> max_request_age a" "\<bar>now - expires_at\<bar> \<le> max_request_age a"
    "expires_at - issued_at \<le> max_request_age a"
    using assms(9,10,12,13) by linarith+
  then have ok: "validate_pre_signed_url a r now = Inr ()"
    using assms(9) by (simp add: validate_decoded [OF dc assms(8)])
  have v: "verb r \<noteq> ''OPTIONS''" using assms(7) by auto
  show ?thesis
    using ok dispatch_allowed [OF ok assms(8) assms(6) v] by (simp add: serve_logs_view_def)
qed

theorem allow_within_window_witness:
  "signer (test_app 30 (one_token_unsign ''tok'' (PyStr ''task1.log'') (claim_header 1000 1020)))
     = timed_loads (one_token_unsign ''tok'' (PyStr ''task1.log'') (claim_header 1000 1020))
   \<and> headers (log_request (Some ''tok'') ''task1.log'') ''Authorization'' = Some ''tok''
   \<and> one_token_unsign ''tok'' (PyStr ''task1.log'') (claim_header 1000 1020) ''tok''
       = Inr (PyStr ''task1.log'', claim_header 1000 1020)
   \<and> claim_header 1000 1020 ''iat'' = Some (PyInt 1000)
   \<and> claim_header 1000 1020 ''exp'' = Some (PyInt 1020)
   \<and> routing_exception (log_request (Some ''tok'') ''task1.log'') = None
   \<and> verb (log_request (Some ''tok'') ''task1.log'') = ''GET''
   \<and> view_arg (log_request (Some ''tok'') ''task1.log'') ''filename'' = Inr ''task1.log''
   \<and> (1000::int) \<le> 1020 \<and> (1020::int) \<le> 1000 + 30 \<and> (0::int) \<le> 1020
   \<and> (1020::int) - 30 \<le> 1015 \<and> (1015::int) \<le> 1020
   \<and> validate_pre_signed_url
        (test_app 30 (one_token_unsign ''tok'' (PyStr ''task1.log'') (claim_header 1000 1020)))
        (log_request (Some ''tok'') ''task1.log'') 1015 = Inr ()
   \<and> full_dispatch_request
        (test_app 30 (one_token_unsign ''tok'' (PyStr ''task1.log'') (claim_header 1000 1020)))
        (files_responder [''task1.log'']) (log_request (Some ''tok'') ''task1.log'') 1015
       = (Inr (FileResponse 200 ''application/json'' ''{}''),
          [SendFromDirectory ''/logs'' ''task1.log''])"
proof -
  let ?u = "one_token_unsign ''tok'' (PyStr ''task1.log'') (claim_header 1000 1020)"
  let ?a = "test_app 30 ?u"
  let ?r = "log_request (Some ''tok'') ''task1.log''"
  have s: "signer ?a = timed_loads ?u" by (rule test_app_sel)
  have hd: "headers ?r ''Authorization'' = Some ''tok''" by (rule headers_log_request)
  have u: "?u ''tok'' = Inr (PyStr ''task1.log'', claim_header 1000 1020)"
    by (rule one_token_unsign_same)
  have i: "claim_header 1000 1020 ''iat'' = Some (PyInt 1000)"
    and e: "claim_header 1000 1020 ''exp'' = Some (PyInt 1020)"
    by (rule claim_header_sel)+
  have ro: "routing_exception ?r = None" and g: "verb ?r = ''GET''"
    by (rule routed_log_request)+
  have g': "verb ?r = ''GET'' \<or> verb ?r = ''HEAD''" using g by simp
  have va: "view_arg ?r ''filename'' = Inr ''task1.log''" by (rule view_arg_log_request)
  have n: "(1000::int) \<le> 1020" "(1020::int) \<le> 1000 + max_request_age ?a" "(0::int) \<le> 1020"
    "(1020::int) - max_request_age ?a \<le> 1015" "(1015::int) \<le> 1020"
    by (simp_all add: test_app_sel)
  have "validate_pre_signed_url ?a ?r 1015 = Inr ()
     \<and> full_dispatch_request ?a (files_responder [''task1.log'']) ?r 1015
         = (files_responder [''task1.log''] (log_directory ?a) ''task1.log'' ''application/json'' False,
            [SendFromDirectory (log_directory ?a) ''task1.log''])"
    by (rule allow_within_window [OF s hd u i e ro g' va n])
  then have "validate_pre_signed_url ?a ?r 1015 = Inr ()
     \<and> full_dispatch_request ?a (files_responder [''task1.log'']) ?r 1015
         = (Inr (FileResponse 200 ''application/json'' ''{}''),
            [SendFromDirectory ''/logs'' ''task1.log''])"
    by (simp add: test_app_sel files_responder_def)
  then show ?thesis using s hd u i e ro g va by simp
qed

text \<open>
  The claim as it was stated fails in four ways, each shown at \<open>max_request_age = 30\<close>.
  A token issued at 1000 and expiring at 1020 is refused at \<open>now = 1025\<close>, because the
  serializer refuses a token past its \<^verbatim>\<open>exp\<close>, and at \<open>now = 985\<close>, because \<open>now\<close> is
  more than 30 before \<^verbatim>\<open>exp\<close>; both lie in the stated window from 970 to 1050. An
  \<^verbatim>\<open>OPTIONS\<close> request with that token at 1015 passes the hook and is answered by the
  framework, without the file responder. A token issued at \<open>-20\<close> and expiring at \<open>-10\<close>
  is refused at \<open>now = -15\<close>, because the serializer refuses a negative \<^verbatim>\<open>exp\<close>.
\<close>

theorem allow_wide_window_counterexample:
  "(1000::int) \<le> 1020 \<and> (1020::int) \<le> 1000 + 30
   \<and> (1000::int) - 30 \<le> 1025 \<and> (1025::int) \<le> 1020 + 30
   \<and> validate_pre_signed_url
        (test_app 30 (one_token_unsign ''tok'' (PyStr ''task1.log'') (claim_header 1000 1020)))
        (log_request (Some ''tok'') ''task1.log'') 1025 = Inl (HTTPException 403)
   \<and> (1000::int) - 30 \<le> 985 \<and> (985::int) \<le> 1020 + 30
   \<and> validate_pre_signed_url
        (test_app 30 (one_token_unsign ''tok'' (PyStr ''task1.log'') (claim_header 1000 1020)))
        (log_request (Some ''tok'') ''task1.log'') 985 = Inl (HTTPException 403)
   \<and> (1000::int) - 30 \<le> 1015 \<and> (1015::int) \<le> 1020 + 30
   \<and> full_dispatch_request
        (test_app 30 (one_token_unsign ''tok'' (PyStr ''task1.log'') (claim_header 1000 1020)))
        (files_responder [''task1.log'']) (options_request (Some ''tok'') ''task1.log'') 1015
       = (Inr DefaultOptions, [])
   \<and> (- 20::int) \<le> - 10 \<and> (- 10::int) \<le> - 20 + 30
   \<and> (- 20::int) - 30 \<le> - 15 \<and> (- 15::int) \<le> - 10 + 30
   \<and> validate_pre_signed_url
        (test_app 30 (one_token_unsign ''tok'' (PyStr ''task1.log'') (claim_header (- 20) (- 10))))
        (log_request (Some ''tok'') ''task1.log'') (- 15) = Inl (HTTPException 403)"
proof -
  let ?u = "one_token_unsign ''tok'' (PyStr ''task1.log'') (claim_header 1000 1020)"
  let ?a = "test_app 30 ?u"
  let ?r = "log_request (Some ''tok'') ''task1.log''"
  let ?o = "options_request (Some ''tok'') ''task1.log''"
  let ?n = "test_app 30 (one_token_unsign ''tok'' (PyStr ''task1.log'') (claim_header (- 20) (- 10)))"
  have late: "\<exists>x. decode_claim (signer ?a 1025) ?r = Inl x"
    unfolding test_app_sel
    by (rule decode_claim_timed_late [where tok = "''tok''" and h = "claim_header 1000 1020"
          and ve = "PyInt 1020" and e = 1020])
       (simp_all add: headers_log_request one_token_unsign_same claim_header_sel)
  then have c1: "validate_pre_signed_url ?a ?r 1025 = Inl (HTTPException 403)"
    using validate_undecoded by blast
  have dc: "decode_claim (signer ?a 985) ?r = Inr (PyStr ''task1.log'', 1000, 1020)"
    by (rule decode_claim_test) simp_all
  have c2: "validate_pre_signed_url ?a ?r 985 = Inl (HTTPException 403)"
    by (simp add: validate_decoded [OF dc view_arg_log_request] test_app_sel)
  have dco: "decode_claim (signer ?a 1015) ?o = Inr (PyStr ''task1.log'', 1000, 1020)"
    unfolding test_app_sel
    by (rule decode_claim_timed [where tok = "''tok''" and h = "claim_header 1000 1020"
          and vi = "PyInt 1000" and ve = "PyInt 1020"])
       (simp_all add: options_request_sel one_token_unsign_same claim_header_sel)
  have vo: "validate_pre_signed_url ?a ?o 1015 = Inr ()"
    by (simp add: validate_decoded [OF dco options_request_sel(2)] test_app_sel)
  have c3: "full_dispatch_request ?a (files_responder [''task1.log'']) ?o 1015
      = (Inr DefaultOptions, [])"
    by (simp add: full_dispatch_request_def vo dispatch_request_def options_request_sel)
  have neg: "\<exists>x. decode_claim (signer ?n (- 15)) ?r = Inl x"
    unfolding test_app_sel
    by (rule decode_claim_timed_late [where tok = "''tok''" and h = "claim_header (- 20) (- 10)"
          and ve = "PyInt (- 10)" and e = "- 10"])
       (simp_all add: headers_log_request one_token_unsign_same claim_header_sel)
  then have c4: "validate_pre_signed_url ?n ?r (- 15) = Inl (HTTPException 403)"
    using validate_undecoded by blast
  show ?thesis using c1 c2 c3 c4 by simp
qed

section \<open>Claims that violate their own invariants\<close>

text \<open>
  Claim C4. When the decoded claim has \<open>issued_at > expires_at\<close>, or a span
  \<open>expires_at - issued_at\<close> above \<open>max_request_age\<close>, the hook never returns normally, at
  any \<open>now\<close>; on a request of the log route (one that has a \<^verbatim>\<open>filename\<close> view
  argument) it aborts with 403. The witness takes \<open>now = 1020\<close>, which is within 30 of
  both \<open>issued_at = 1000\<close> and \<open>expires_at = 1040\<close>.
\<close>

theorem invalid_span_denied:
  assumes "decode_claim (signer a now) r = Inr (p, issued_at, expires_at)"
    and "issued_at > expires_at \<or> expires_at - issued_at > max_request_age a"
  shows "validate_pre_signed_url a r now \<noteq> Inr ()
     \<and> (\<forall>f. view_arg r ''filename'' = Inr f \<longrightarrow>
            validate_pre_signed_url a r now = Inl (HTTPException 403))"
proof (cases "view_arg r ''filename''")
  case (Inl e)
  then show ?thesis using assms(1) by (simp add: validate_unrouted)
next
  case (Inr f)
  then show ?thesis using assms by (auto simp add: validate_decoded)
qed

theorem invalid_span_denied_witness:
  "decode_claim (signer (test_app 30 (one_token_unsign ''tok'' (PyStr ''task1.log'')
       (claim_header 1000 1040))) 1020) (log_request (Some ''tok'') ''task1.log'')
     = Inr (PyStr ''task1.log'', 1000, 1040)
   \<and> (1040::int) - 1000 > max_request_age (test_app 30 (one_token_unsign ''tok''
         (PyStr ''task1.log'') (claim_header 1000 1040)))
   \<and> \<bar>(1020::int) - 1000\<bar> \<le> 30 \<and> \<bar>(1020::int) - 1040\<bar> \<le> 30
   \<and> view_arg (log_request (Some ''tok'') ''task1.log'') ''filename'' = Inr ''task1.log''
   \<and> validate_pre_signed_url
        (test_app 30 (one_token_unsign ''tok'' (PyStr ''task1.log'') (claim_header 1000 1040)))
        (log_request (Some ''tok'') ''task1.log'') 1020 = Inl (HTTPException 403)"
proof -
  let ?a = "test_app 30 (one_token_unsign ''tok'' (PyStr ''task1.log'') (claim_header 1000 1040))"
  have span: "(1000::int) > 1040 \<or> (1040::int) - 1000 > max_request_age ?a"
    by (simp add: test_app_sel)
  have dc: "decode_claim (signer ?a 1020) (log_request (Some ''tok'') ''task1.log'')
      = Inr (PyStr ''task1.log'', 1000, 1040)"
    by (rule decode_claim_test) simp_all
  have va: "view_arg (log_request (Some ''tok'') ''task1.log'') ''filename'' = Inr ''task1.log''"
    by (rule view_arg_log_request)
  have m: "max_request_age ?a = 30" by (simp add: test_app_sel)
  have "validate_pre_signed_url ?a (log_request (Some ''tok'') ''task1.log'') 1020
      = Inl (HTTPException 403)"
    using invalid_span_denied [OF dc span] va by blast
  then show ?thesis using dc va m by simp
qed

section \<open>The bounds of the window\<close>




section \<open>Failures of decoding\<close>

text \<open>
  Claim C2, as amended. When the \<^verbatim>\<open>Authorization\<close> header is absent, or \<^verbatim>\<open>loads\<close>
  raises (a malformed token, a signature that does not verify, an expired token, any
  other exception), or the header of the token has no \<^verbatim>\<open>iat\<close> or \<^verbatim>\<open>exp\<close>, or
  \<^verbatim>\<open>int\<close> raises on one of them, the hook aborts with 403 and the response is the
  generic page of 403, with no file access. On the log route every refusal is that same
  response: the hook either returns normally or aborts with 403, and the exception
  carries the code alone.
\<close>

theorem decode_failure_opaque_403:
  "((headers r ''Authorization'' = None
      \<or> (\<exists>tok e. headers r ''Authorization'' = Some tok \<and> signer a now tok = Inl e)
      \<or> (\<exists>tok p h. headers r ''Authorization'' = Some tok \<and> signer a now tok = Inr (p, h)
           \<and> (h ''iat'' = None \<or> (\<exists>v e. h ''iat'' = Some v \<and> py_int v = Inl e)
              \<or> h ''exp'' = None \<or> (\<exists>v e. h ''exp'' = Some v \<and> py_int v = Inl e))))
     \<longrightarrow> validate_pre_signed_url a r now = Inl (HTTPException 403)
         \<and> wsgi_app a send_from_directory r now = (ErrorPage 403, []))
   \<and> ((\<exists>f. view_arg r ''filename'' = Inr f) \<longrightarrow>
         validate_pre_signed_url a r now = Inr ()
         \<or> (validate_pre_signed_url a r now = Inl (HTTPException 403)
            \<and> wsgi_app a send_from_directory r now = (ErrorPage 403, [])))"
proof (intro conjI impI)
  assume "headers r ''Authorization'' = None
      \<or> (\<exists>tok e. headers r ''Authorization'' = Some tok \<and> signer a now tok = Inl e)
      \<or> (\<exists>tok p h. headers r ''Authorization'' = Some tok \<and> signer a now tok = Inr (p, h)
           \<and> (h ''iat'' = None \<or> (\<exists>v e. h ''iat'' = Some v \<and> py_int v = Inl e)
              \<or> h ''exp'' = None \<or> (\<exists>v e. h ''exp'' = Some v \<and> py_int v = Inl e)))"
  then obtain e where "decode_claim (signer a now) r = Inl e"
    using decode_claim_fails [of r "signer a now"] by blast
  then have v: "validate_pre_signed_url a r now = Inl (HTTPException 403)"
    by (rule validate_undecoded)
  show "validate_pre_signed_url a r now = Inl (HTTPException 403)" by (rule v)
  show "wsgi_app a send_from_directory r now = (ErrorPage 403, [])"
    using v by (rule wsgi_app_raised)
next
  assume "\<exists>f. view_arg r ''filename'' = Inr f"
  then obtain f where "view_arg r ''filename'' = Inr f" ..
  then show "validate_pre_signed_url a r now = Inr ()
         \<or> (validate_pre_signed_url a r now = Inl (HTTPException 403)
            \<and> wsgi_app a send_from_directory r now = (ErrorPage 403, []))"
    using validate_routed_cases [of r f a now] wsgi_app_raised [of a r now 403 send_from_directory]
    by blast
qed

theorem decode_failure_opaque_403_witness:
  "headers (log_request None ''task1.log'') ''Authorization'' = None
   \<and> wsgi_app (test_app 30 (one_token_unsign ''tok'' (PyStr ''task1.log'') (claim_header 1000 1020)))
        (files_responder [''task1.log'']) (log_request None ''task1.log'') 1015
       = (ErrorPage 403, [])
   \<and> headers (log_request (Some ''forged'') ''task1.log'') ''Authorization'' = Some ''forged''
   \<and> signer (test_app 30 (one_token_unsign ''tok'' (PyStr ''task1.log'') (claim_header 1000 1020)))
        1015 ''forged'' = Inl (BadSignature ''Signature does not match'')
   \<and> wsgi_app (test_app 30 (one_token_unsign ''tok'' (PyStr ''task1.log'') (claim_header 1000 1020)))
        (files_responder [''task1.log'']) (log_request (Some ''forged'') ''task1.log'') 1015
       = (ErrorPage 403, [])
   \<and> py_int (PyStr ''soon'') = Inl ValueError
   \<and> wsgi_app (test_app 30 (one_token_unsign ''tok'' (PyStr ''task1.log'')
          [''iat'' \<mapsto> PyStr ''soon'', ''exp'' \<mapsto> PyInt 1020]))
        (files_responder [''task1.log'']) (log_request (Some ''tok'') ''task1.log'') 1015
       = (ErrorPage 403, [])
   \<and> (\<exists>f. view_arg (log_request (Some ''tok'') ''task1.log'') ''filename'' = Inr f)"
proof -
  let ?a = "test_app 30 (one_token_unsign ''tok'' (PyStr ''task1.log'') (claim_header 1000 1020))"
  let ?h = "[''iat'' \<mapsto> PyStr ''soon'', ''exp'' \<mapsto> PyInt 1020]"
  let ?b = "test_app 30 (one_token_unsign ''tok'' (PyStr ''task1.log'') ?h)"
  let ?sfd = "files_responder [''task1.log'']"
  have h1: "headers (log_request None ''task1.log'') ''Authorization'' = None"
    by (simp add: log_request_def)
  have h2: "headers (log_request (Some ''forged'') ''task1.log'') ''Authorization'' = Some ''forged''"
    by (rule headers_log_request)
  have s2: "signer ?a 1015 ''forged'' = Inl (BadSignature ''Signature does not match'')"
    by (simp add: test_app_sel timed_loads_def one_token_unsign_def)
  have h3: "headers (log_request (Some ''tok'') ''task1.log'') ''Authorization'' = Some ''tok''"
    by (rule headers_log_request)
  have "timed_loads (one_token_unsign ''tok'' (PyStr ''task1.log'') ?h) 1015 ''tok''
      = Inr (PyStr ''task1.log'', ?h(''exp'' \<mapsto> PyInt 1020))"
    by (rule timed_loads_fresh [where v = "PyInt 1020"]) (simp_all add: one_token_unsign_same)
  then have s3: "signer ?b 1015 ''tok'' = Inr (PyStr ''task1.log'', ?h(''exp'' \<mapsto> PyInt 1020))"
    by (simp add: test_app_sel)
  have i3: "(?h(''exp'' \<mapsto> PyInt 1020)) ''iat'' = Some (PyStr ''soon'')"
    by simp
  have va: "\<exists>f. view_arg (log_request (Some ''tok'') ''task1.log'') ''filename'' = Inr f"
    using view_arg_log_request by blast
  have w1: "wsgi_app ?a ?sfd (log_request None ''task1.log'') 1015 = (ErrorPage 403, [])"
    using decode_failure_opaque_403 [of "log_request None ''task1.log''" ?a 1015 ?sfd] h1
    by blast
  have w2: "wsgi_app ?a ?sfd (log_request (Some ''forged'') ''task1.log'') 1015 = (ErrorPage 403, [])"
    using decode_failure_opaque_403 [of "log_request (Some ''forged'') ''task1.log''" ?a 1015 ?sfd]
      h2 s2 by blast
  have w3: "wsgi_app ?b ?sfd (log_request (Some ''tok'') ''task1.log'') 1015 = (ErrorPage 403, [])"
    using decode_failure_opaque_403 [of "log_request (Some ''tok'') ''task1.log''" ?b 1015 ?sfd]
      h3 s3 i3 py_int_soon by blast
  show ?thesis using h1 h2 s2 w1 w2 w3 va py_int_soon by blast
qed

text \<open>
  The claim as it was stated counts every non-integer \<^verbatim>\<open>iat\<close> or \<^verbatim>\<open>exp\<close> among the
  failures. A field that \<^verbatim>\<open>int\<close> converts is no failure: with \<^verbatim>\<open>iat\<close> the string
  \<^verbatim>\<open>1000\<close>, or the float 1000.5 (which is \<open>2001 * 2 ^ -1\<close>), the token is let through.
\<close>

theorem converted_fields_counterexample:
  "py_int (PyStr ''1000'') = Inr 1000
   \<and> validate_pre_signed_url
        (test_app 30 (one_token_unsign ''tok'' (PyStr ''task1.log'')
           [''iat'' \<mapsto> PyStr ''1000'', ''exp'' \<mapsto> PyInt 1020]))
        (log_request (Some ''tok'') ''task1.log'') 1015 = Inr ()
   \<and> py_int (PyFloat 2001 (- 1)) = Inr 1000
   \<and> validate_pre_signed_url
        (test_app 30 (one_token_unsign ''tok'' (PyStr ''task1.log'')
           [''iat'' \<mapsto> PyFloat 2001 (- 1), ''exp'' \<mapsto> PyInt 1020]))
        (log_request (Some ''tok'') ''task1.log'') 1015 = Inr ()"
proof -
  let ?r = "log_request (Some ''tok'') ''task1.log''"
  let ?hs = "[''iat'' \<mapsto> PyStr ''1000'', ''exp'' \<mapsto> PyInt 1020]"
  let ?hf = "[''iat'' \<mapsto> PyFloat 2001 (- 1), ''exp'' \<mapsto> PyInt 1020]"
  let ?a = "test_app 30 (one_token_unsign ''tok'' (PyStr ''task1.log'') ?hs)"
  let ?b = "test_app 30 (one_token_unsign ''tok'' (PyStr ''task1.log'') ?hf)"
  have ds: "decode_claim (signer ?a 1015) ?r = Inr (PyStr ''task1.log'', 1000, 1020)"
    unfolding test_app_sel
    by (rule decode_claim_timed [where tok = "''tok''" and h = ?hs
          and vi = "PyStr ''1000''" and ve = "PyInt 1020"])
       (simp_all add: headers_log_request one_token_unsign_same int_of_str_1000)
  have df: "decode_claim (signer ?b 1015) ?r = Inr (PyStr ''task1.log'', 1000, 1020)"
    unfolding test_app_sel
    by (rule decode_claim_timed [where tok = "''tok''" and h = ?hf
          and vi = "PyFloat 2001 (- 1)" and ve = "PyInt 1020"])
       (simp_all add: headers_log_request one_token_unsign_same float_trunc_1000)
  have vs: "validate_pre_signed_url ?a ?r 1015 = Inr ()"
    by (simp add: validate_decoded [OF ds view_arg_log_request] test_app_sel)
  have vf: "validate_pre_signed_url ?b ?r 1015 = Inr ()"
    by (simp add: validate_decoded [OF df view_arg_log_request] test_app_sel)
  show ?thesis using vs vf py_int_1000_str py_int_1000_float by blast
qed

section \<open>Requests without a \<^verbatim>\<open>filename\<close> view argument\<close>

text \<open>
  Claim C10. The comparison of the resource reads \<^verbatim>\<open>request.view_args['filename']\<close>
  outside the \<^verbatim>\<open>try\<close> block. For a token that decodes, a request whose URL matched
  no rule makes the hook raise \<^verbatim>\<open>TypeError\<close>, and one whose view arguments lack
  \<^verbatim>\<open>filename\<close> makes it raise \<^verbatim>\<open>KeyError\<close>, neither of which is the 403; only with
  a \<^verbatim>\<open>filename\<close> view argument does the hook end in one of its two intended outcomes.
\<close>

theorem filename_lookup_partial:
  assumes "decode_claim (signer a now) r = Inr (p, issued_at, expires_at)"
  shows "(view_args r = None \<longrightarrow> validate_pre_signed_url a r now = Inl TypeError)
     \<and> (\<forall>va. view_args r = Some va \<and> va ''filename'' = None \<longrightarrow>
            validate_pre_signed_url a r now = Inl (KeyError ''filename''))
     \<and> (\<forall>va f. view_args r = Some va \<and> va ''filename'' = Some f \<longrightarrow>
            validate_pre_signed_url a r now = Inr ()
            \<or> validate_pre_signed_url a r now = Inl (HTTPException 403))"
proof (intro conjI allI impI)
  assume "view_args r = None"
  then have "view_arg r ''filename'' = Inl TypeError" by (simp add: view_arg_def)
  then show "validate_pre_signed_url a r now = Inl TypeError"
    using assms by (simp add: validate_unrouted)
next
  fix va assume "view_args r = Some va \<and> va ''filename'' = None"
  then have "view_arg r ''filename'' = Inl (KeyError ''filename'')"
    by (simp add: view_arg_def getitem_def)
  then show "validate_pre_signed_url a r now = Inl (KeyError ''filename'')"
    using assms by (simp add: validate_unrouted)
next
  fix va f assume "view_args r = Some va \<and> va ''filename'' = Some f"
  then have "view_arg r ''filename'' = Inr f"
    by (simp add: view_arg_def getitem_def)
  then show "validate_pre_signed_url a r now = Inr ()
            \<or> validate_pre_signed_url a r now = Inl (HTTPException 403)"
    by (rule validate_routed_cases)
qed

theorem filename_lookup_partial_witness:
  "decode_claim (signer (test_app 30 (one_token_unsign ''tok'' (PyStr ''task1.log'')
       (claim_header 1000 1020))) 1015) (unrouted_request (Some ''tok'') ''/other'')
     = Inr (PyStr ''task1.log'', 1000, 1020)
   \<and> view_args (unrouted_request (Some ''tok'') ''/other'') = None
   \<and> validate_pre_signed_url
        (test_app 30 (one_token_unsign ''tok'' (PyStr ''task1.log'') (claim_header 1000 1020)))
        (unrouted_request (Some ''tok'') ''/other'') 1015 = Inl TypeError"
proof -
  let ?a = "test_app 30 (one_token_unsign ''tok'' (PyStr ''task1.log'') (claim_header 1000 1020))"
  let ?r = "unrouted_request (Some ''tok'') ''/other''"
  have dc: "decode_claim (signer ?a 1015) ?r = Inr (PyStr ''task1.log'', 1000, 1020)"
    unfolding test_app_sel
    by (rule decode_claim_timed [where tok = "''tok''" and h = "claim_header 1000 1020"
          and vi = "PyInt 1000" and ve = "PyInt 1020"])
       (simp_all add: unrouted_request_def one_token_unsign_same claim_header_sel)
  have va: "view_args ?r = None" by (simp add: unrouted_request_def)
  show ?thesis using filename_lookup_partial [OF dc] dc va by blast
qed

section \<open>The check comes before the file access\<close>

text \<open>
  Claim C6. The file responder is called only after the hook returned normally: every
  call of \<^verbatim>\<open>send_from_directory\<close> made while handling a request is on the log
  directory and the \<^verbatim>\<open>filename\<close> of the request, and the hook let that request
  through. When the hook did not, nothing is read and the response is an error page.
\<close>

theorem file_access_only_after_allow:
  "(SendFromDirectory d f \<in> set (snd (wsgi_app a send_from_directory r now)) \<longrightarrow>
      validate_pre_signed_url a r now = Inr () \<and> d = log_directory a
      \<and> view_arg r ''filename'' = Inr f)
   \<and> (validate_pre_signed_url a r now \<noteq> Inr () \<longrightarrow>
        snd (wsgi_app a send_from_directory r now) = []
        \<and> (\<exists>c. fst (wsgi_app a send_from_directory r now) = ErrorPage c))"
proof (intro conjI impI)
  assume ev: "SendFromDirectory d f \<in> set (snd (wsgi_app a send_from_directory r now))"
  then show ok: "validate_pre_signed_url a r now = Inr ()"
    by (auto simp add: wsgi_app_events split: sum.splits)
  from ev ok have "SendFromDirectory d f \<in> set (snd (dispatch_request a send_from_directory r))"
    by (simp add: wsgi_app_events)
  then have both: "d = log_directory a \<and> view_arg r ''filename'' = Inr f"
    by (rule dispatch_request_events)
  from both show "d = log_directory a" ..
  from both show "view_arg r ''filename'' = Inr f" ..
next
  assume no: "validate_pre_signed_url a r now \<noteq> Inr ()"
  then obtain e where e: "validate_pre_signed_url a r now = Inl e"
    by (cases "validate_pre_signed_url a r now") auto
  show "snd (wsgi_app a send_from_directory r now) = []"
    using e by (simp add: wsgi_app_events)
  show "\<exists>c. fst (wsgi_app a send_from_directory r now) = ErrorPage c"
    using e by (rule wsgi_app_response_raised)
qed

theorem file_access_only_after_allow_witness:
  "SendFromDirectory ''/logs'' ''task1.log'' \<in> set (snd (wsgi_app
       (test_app 30 (one_token_unsign ''tok'' (PyStr ''task1.log'') (claim_header 1000 1020)))
       (files_responder [''task1.log'']) (log_request (Some ''tok'') ''task1.log'') 1015))
   \<and> validate_pre_signed_url
        (test_app 30 (one_token_unsign ''tok'' (PyStr ''task1.log'') (claim_header 1000 1020)))
        (log_request (Some ''tok'') ''task1.log'') 1015 = Inr ()
   \<and> validate_pre_signed_url
        (test_app 30 (one_token_unsign ''tok'' (PyStr ''task1.log'') (claim_header 1000 1020)))
        (log_request (Some ''tok'') ''task2.log'') 1015 \<noteq> Inr ()
   \<and> snd (wsgi_app
        (test_app 30 (one_token_unsign ''tok'' (PyStr ''task1.log'') (claim_header 1000 1020)))
        (files_responder [''task1.log'', ''task2.log'']) (log_request (Some ''tok'') ''task2.log'') 1015) = []"
proof -
  let ?a = "test_app 30 (one_token_unsign ''tok'' (PyStr ''task1.log'') (claim_header 1000 1020))"
  have dc1: "decode_claim (signer ?a 1015) (log_request (Some ''tok'') ''task1.log'')
      = Inr (PyStr ''task1.log'', 1000, 1020)"
    by (rule decode_claim_test) simp_all
  have dc2: "decode_claim (signer ?a 1015) (log_request (Some ''tok'') ''task2.log'')
      = Inr (PyStr ''task1.log'', 1000, 1020)"
    by (rule decode_claim_test) simp_all
  have v1: "validate_pre_signed_url ?a (log_request (Some ''tok'') ''task1.log'') 1015 = Inr ()"
    by (simp add: validate_decoded [OF dc1 view_arg_log_request] test_app_sel)
  have v2: "validate_pre_signed_url ?a (log_request (Some ''tok'') ''task2.log'') 1015 \<noteq> Inr ()"
    by (simp add: validate_decoded [OF dc2 view_arg_log_request])
  have "full_dispatch_request ?a (files_responder [''task1.log''])
      (log_request (Some ''tok'') ''task1.log'') 1015
      = serve_logs_view ?a (files_responder [''task1.log'']) ''task1.log''"
    by (rule dispatch_allowed [OF v1 view_arg_log_request]) (simp_all add: routed_log_request)
  then have ev: "SendFromDirectory ''/logs'' ''task1.log'' \<in> set (snd (wsgi_app ?a
       (files_responder [''task1.log'']) (log_request (Some ''tok'') ''task1.log'') 1015))"
    by (simp add: wsgi_app_def serve_logs_view_def test_app_sel)
  show ?thesis
    using file_access_only_after_allow [of "''/logs''" "''task1.log''" ?a
        "files_responder [''task1.log'']" "log_request (Some ''tok'') ''task1.log''" 1015]
      file_access_only_after_allow [of "''/logs''" "''task1.log''" ?a
        "files_responder [''task1.log'', ''task2.log'']" "log_request (Some ''tok'') ''task2.log''" 1015]
      ev v2
    by blast
qed

section \<open>The scenario of the specification\<close>

text \<open>
  Claim C7. With \<open>max_request_age = 30\<close> and a token that \<^verbatim>\<open>loads\<close> decodes at 1015 to
  the payload \<^verbatim>\<open>task1.log\<close> with \<^verbatim>\<open>iat = 1000\<close> and \<^verbatim>\<open>exp = 1020\<close>, and at 1060
  either decodes to the same or refuses: the request for \<^verbatim>\<open>/log/task1.log\<close> at 1015
  gets the responder's answer (200 when the responder finds the file), the request for
  \<^verbatim>\<open>/log/task2.log\<close> gets 403, and the request for \<^verbatim>\<open>/log/task1.log\<close> at 1060 gets
  403.
\<close>

theorem concrete_scenario:
  assumes "max_request_age a = 30"
    and "signer a 1015 tok = Inr (PyStr ''task1.log'', h)"
    and "h ''iat'' = Some (PyInt 1000)" and "h ''exp'' = Some (PyInt 1020)"
    and "signer a 1060 tok = Inr (PyStr ''task1.log'', h) \<or> (\<exists>e. signer a 1060 tok = Inl e)"
    and "send_from_directory (log_directory a) ''task1.log'' ''application/json'' False = Inr resp"
    and "status resp = 200"
  shows "status (fst (wsgi_app a send_from_directory (log_request (Some tok) ''task1.log'') 1015)) = 200
     \<and> wsgi_app a send_from_directory (log_request (Some tok) ''task2.log'') 1015 = (ErrorPage 403, [])
     \<and> wsgi_app a send_from_directory (log_request (Some tok) ''task1.log'') 1060 = (ErrorPage 403, [])"
proof -
  have dc: "decode_claim (signer a 1015) (log_request (Some tok) f)
      = Inr (PyStr ''task1.log'', 1000, 1020)" for f
    by (rule decode_claim_loaded [where tok = tok and h = h and vi = "PyInt 1000"
          and ve = "PyInt 1020"])
       (simp_all add: headers_log_request assms(2-4))
  have v1: "validate_pre_signed_url a (log_request (Some tok) ''task1.log'') 1015 = Inr ()"
    by (simp add: validate_decoded [OF dc view_arg_log_request] assms(1))
  have v2: "validate_pre_signed_url a (log_request (Some tok) ''task2.log'') 1015
      = Inl (HTTPException 403)"
    by (simp add: validate_decoded [OF dc view_arg_log_request])
  have v3: "validate_pre_signed_url a (log_request (Some tok) ''task1.log'') 1060
      = Inl (HTTPException 403)"
    using assms(5)
  proof
    assume "signer a 1060 tok = Inr (PyStr ''task1.log'', h)"
    then have "decode_claim (signer a 1060) (log_request (Some tok) ''task1.log'')
        = Inr (PyStr ''task1.log'', 1000, 1020)"
      by (intro decode_claim_loaded [where tok = tok and h = h and vi = "PyInt 1000"
            and ve = "PyInt 1020"])
         (simp_all add: headers_log_request assms(3,4))
    then show ?thesis
      by (simp add: validate_decoded [OF _ view_arg_log_request] assms(1))
  next
    assume "\<exists>e. signer a 1060 tok = Inl e"
    then obtain e where "signer a 1060 tok = Inl e" ..
    then have "decode_claim (signer a 1060) (log_request (Some tok) ''task1.log'') = Inl e"
      by (intro decode_claim_refused [where tok = tok]) (simp_all add: headers_log_request)
    then show ?thesis by (rule validate_undecoded)
  qed
  have "full_dispatch_request a send_from_directory (log_request (Some tok) ''task1.log'') 1015
      = serve_logs_view a send_from_directory ''task1.log''"
    by (rule dispatch_allowed [OF v1 view_arg_log_request]) (simp_all add: routed_log_request)
  then have "fst (wsgi_app a send_from_directory (log_request (Some tok) ''task1.log'') 1015) = resp"
    by (simp add: wsgi_app_def serve_logs_view_def assms(6))
  then show ?thesis
    using assms(7) wsgi_app_raised [OF v2] wsgi_app_raised [OF v3] by simp
qed

theorem concrete_scenario_witness:
  "max_request_age (test_app 30 (one_token_unsign ''tok'' (PyStr ''task1.log'')
       (claim_header 1000 1020))) = 30
   \<and> signer (test_app 30 (one_token_unsign ''tok'' (PyStr ''task1.log'')
       (claim_header 1000 1020))) 1015 ''tok''
       = Inr (PyStr ''task1.log'', (claim_header 1000 1020)(''exp'' \<mapsto> PyInt 1020))
   \<and> ((claim_header 1000 1020)(''exp'' \<mapsto> PyInt 1020)) ''iat'' = Some (PyInt 1000)
   \<and> ((claim_header 1000 1020)(''exp'' \<mapsto> PyInt 1020)) ''exp'' = Some (PyInt 1020)
   \<and> signer (test_app 30 (one_token_unsign ''tok'' (PyStr ''task1.log'')
       (claim_header 1000 1020))) 1060 ''tok'' = Inl SignatureExpired
   \<and> files_responder [''task1.log'', ''task2.log''] ''/logs'' ''task1.log'' ''application/json'' False
       = Inr (FileResponse 200 ''application/json'' ''{}'')
   \<and> status (fst (wsgi_app
        (test_app 30 (one_token_unsign ''tok'' (PyStr ''task1.log'') (claim_header 1000 1020)))
        (files_responder [''task1.log'', ''task2.log''])
        (log_request (Some ''tok'') ''task1.log'') 1015)) = 200
   \<and> wsgi_app
        (test_app 30 (one_token_unsign ''tok'' (PyStr ''task1.log'') (claim_header 1000 1020)))
        (files_responder [''task1.log'', ''task2.log''])
        (log_request (Some ''tok'') ''task2.log'') 1015 = (ErrorPage 403, [])
   \<and> wsgi_app
        (test_app 30 (one_token_unsign ''tok'' (PyStr ''task1.log'') (claim_header 1000 1020)))
        (files_responder [''task1.log'', ''task2.log''])
        (log_request (Some ''tok'') ''task1.log'') 1060 = (ErrorPage 403, [])"
proof -
  let ?u = "one_token_unsign ''tok'' (PyStr ''task1.log'') (claim_header 1000 1020)"
  let ?a = "test_app 30 ?u"
  let ?h = "(claim_header 1000 1020)(''exp'' \<mapsto> PyInt 1020)"
  let ?sfd = "files_responder [''task1.log'', ''task2.log'']"
  have m: "max_request_age ?a = 30" by (simp add: test_app_sel)
  have "timed_loads ?u 1015 ''tok'' = Inr (PyStr ''task1.log'', ?h)"
    by (rule timed_loads_fresh [where v = "PyInt 1020"])
       (simp_all add: one_token_unsign_same claim_header_sel)
  then have s: "signer ?a 1015 ''tok'' = Inr (PyStr ''task1.log'', ?h)"
    by (simp add: test_app_sel)
  have i: "?h ''iat'' = Some (PyInt 1000)" and e: "?h ''exp'' = Some (PyInt 1020)"
    by (simp_all add: claim_header_sel)
  have x: "signer ?a 1060 ''tok'' = Inl SignatureExpired"
    by (simp add: test_app_sel timed_loads_def one_token_unsign_same claim_header_sel)
  then have x': "signer ?a 1060 ''tok'' = Inr (PyStr ''task1.log'', ?h)
      \<or> (\<exists>e. signer ?a 1060 ''tok'' = Inl e)" by blast
  have f: "?sfd (log_directory ?a) ''task1.log'' ''application/json'' False
       = Inr (FileResponse 200 ''application/json'' ''{}'')"
    by (simp add: files_responder_def)
  have st: "status (FileResponse 200 ''application/json'' ''{}'') = 200" by simp
  show ?thesis
    using concrete_scenario [where a = ?a and tok = "''tok''" and h = ?h
        and send_from_directory = ?sfd and resp = "FileResponse 200 ''application/json'' ''{}''",
        OF m s i e x' f st] m s i e x f
    by (simp add: test_app_sel)
qed

section \<open>The entry point\<close>

text \<open>
  Claim C9. When \<^verbatim>\<open>create_app\<close> succeeds and the configuration gives the port,
  \<^verbatim>\<open>serve_logs\<close> runs a Gunicorn application around that Flask application whose
  setting \<^verbatim>\<open>bind\<close> is the address 0.0.0.0 followed by a colon and the port in decimal,
  and whose setting \<^verbatim>\<open>workers\<close> is 2. Both are set once, when the application object
  is constructed, before it runs.
\<close>

theorem serve_logs_listener:
  assumes "create_app c l = Inr a"
    and "getint c ''celery'' ''WORKER_LOG_SERVER_PORT'' None = Inr port"
  shows "\<exists>g. serve_logs c l = Inr g \<and> application g = a
     \<and> cfg g ''bind'' = Some (PyStr (''0.0.0.0:'' @ py_str_int port))
     \<and> cfg g ''workers'' = Some (PyInt 2)"
proof -
  let ?g = "StandaloneGunicornApplication a
      [(''bind'', PyStr (''0.0.0.0:'' @ py_str_int port)), (''workers'', PyInt 2)]"
  have "serve_logs c l = Inr ?g" using assms by (simp add: serve_logs_def)
  moreover have "application ?g = a"
    by (simp add: StandaloneGunicornApplication_def load_config_def)
  moreover have "cfg ?g ''bind'' = Some (PyStr (''0.0.0.0:'' @ py_str_int port))"
    by (simp add: cfg_two_options)
  moreover have "cfg ?g ''workers'' = Some (PyInt 2)"
    by (simp add: cfg_two_options)
  ultimately show ?thesis by blast
qed

theorem serve_logs_listener_witness:
  "create_app (table_conf test_table) test_libs
     = Inr \<lparr>max_request_age = 30, log_directory = ''/logs'',
            signer = timed_loads (one_token_unsign ''s3cret'' PyNone Map.empty)\<rparr>
   \<and> getint (table_conf test_table) ''celery'' ''WORKER_LOG_SERVER_PORT'' None = Inr 8793
   \<and> (\<exists>g. serve_logs (table_conf test_table) test_libs = Inr g
        \<and> cfg g ''bind'' = Some (PyStr ''0.0.0.0:8793'')
        \<and> cfg g ''workers'' = Some (PyInt 2))"
proof -
  let ?a = "\<lparr>max_request_age = 30, log_directory = ''/logs'',
            signer = timed_loads (one_token_unsign ''s3cret'' PyNone Map.empty)\<rparr>"
  have ca: "create_app (table_conf test_table) test_libs = Inr ?a"
    by (simp add: create_app_def table_conf_def test_table_lookups test_libs_def
        TimedJSONWebSignatureSerializer_def)
  have gi: "getint (table_conf test_table) ''celery'' ''WORKER_LOG_SERVER_PORT'' None = Inr 8793"
    by (simp add: table_conf_def test_table_lookups int_of_str_8793)
  have "\<exists>g. serve_logs (table_conf test_table) test_libs = Inr g \<and> application g = ?a
     \<and> cfg g ''bind'' = Some (PyStr (''0.0.0.0:'' @ ''8793''))
     \<and> cfg g ''workers'' = Some (PyInt 2)"
    using serve_logs_listener [OF ca gi] by (simp only: py_str_int_8793)
  then show ?thesis using ca gi by auto
qed

end
